theory Spec2Isabelle
  imports Complex_Main
begin

section \<open>The task progress registry of \<^verbatim>\<open>backend/utils/progress_tracker.py\<close>\<close>

text \<open>
  The class \<^verbatim>\<open>ProgressTracker\<close> keeps a dictionary of task records behind one
  \<^verbatim>\<open>threading.Lock\<close>. The embedding below follows the class method by method.
  Conventions:
  \<^item> a Python \<^verbatim>\<open>float\<close> is a \<open>pyfloat\<close>: a finite value, idealised as an exact
    rational (rounding, overflow and underflow of IEEE doubles are not modelled), or one
    of the two infinities, or NaN. The concrete evaluations below use values on which
    double arithmetic is exact (150/100, 1.5 * 4, 1/4 * 100, ...);
  \<^item> a \<^verbatim>\<open>datetime\<close> is an integer number of microseconds; every call of
    \<^verbatim>\<open>datetime.now()\<close> in the source is a parameter of the model, in source order;
  \<^item> \<^verbatim>\<open>threading.Lock\<close> is a boolean (held or free). A thread that acquires a held
    lock waits; in the model of one thread of control nobody else releases it, so the
    call never returns: the outcome \<open>Blocked\<close>;
  \<^item> a raised exception is the outcome \<open>Raised\<close>, with the registry as the exception
    leaves it;
  \<^item> parameters are named \<open>tid\<close>, \<open>n\<close>, \<open>pid\<close>, \<open>ttype\<close>, \<open>p\<close>, \<open>msg\<close> for the
    source's \<^verbatim>\<open>task_id\<close>, \<^verbatim>\<open>total_items\<close>, \<^verbatim>\<open>profile_id\<close>, \<^verbatim>\<open>task_type\<close>,
    \<^verbatim>\<open>progress\<close>, \<^verbatim>\<open>message\<close>, because the record's field names are taken.
\<close>

subsection \<open>Python values\<close>

datatype pyfloat = Finite rat | PosInf | NegInf | NaN

datatype error = ZeroDivisionError | ValueError | OverflowError

text \<open>The comparison \<^verbatim>\<open>a > b\<close> of two floats; every comparison with NaN is false.\<close>

fun float_gt :: "pyfloat \<Rightarrow> pyfloat \<Rightarrow> bool" where
  "float_gt (Finite a) (Finite b) = (b < a)"
| "float_gt PosInf (Finite b) = True"
| "float_gt PosInf NegInf = True"
| "float_gt (Finite a) NegInf = True"
| "float_gt a b = False"

text \<open>
  The builtins \<^verbatim>\<open>max(a, b)\<close> and \<^verbatim>\<open>min(a, b)\<close>: the first argument is kept unless the
  second is strictly greater (strictly smaller).
\<close>

definition py_max :: "pyfloat \<Rightarrow> pyfloat \<Rightarrow> pyfloat" where
  "py_max a b = (if float_gt b a then b else a)"

definition py_min :: "pyfloat \<Rightarrow> pyfloat \<Rightarrow> pyfloat" where
  "py_min a b = (if float_gt a b then b else a)"

text \<open>\<^verbatim>\<open>x / 100.0\<close>.\<close>

fun div_100 :: "pyfloat \<Rightarrow> pyfloat" where
  "div_100 (Finite r) = Finite (r / 100)"
| "div_100 x = x"

text \<open>\<^verbatim>\<open>x * n\<close> for a float \<open>x\<close> and an int \<open>n\<close>; infinity times zero is NaN.\<close>

fun float_mul_int :: "pyfloat \<Rightarrow> int \<Rightarrow> pyfloat" where
  "float_mul_int (Finite r) n = Finite (r * of_int n)"
| "float_mul_int PosInf n = (if 0 < n then PosInf else if n < 0 then NegInf else NaN)"
| "float_mul_int NegInf n = (if 0 < n then NegInf else if n < 0 then PosInf else NaN)"
| "float_mul_int NaN n = NaN"

text \<open>
  \<^verbatim>\<open>int(x)\<close>: truncation towards zero; \<^verbatim>\<open>ValueError\<close> on NaN, \<^verbatim>\<open>OverflowError\<close> on an
  infinity.
\<close>

definition py_trunc :: "rat \<Rightarrow> int" where
  "py_trunc r = (if 0 \<le> r then \<lfloor>r\<rfloor> else \<lceil>r\<rceil>)"

fun py_int :: "pyfloat \<Rightarrow> error + int" where
  "py_int (Finite r) = Inr (py_trunc r)"
| "py_int NaN = Inl ValueError"
| "py_int x = Inl OverflowError"

text \<open>The truth value of an optional string: \<^verbatim>\<open>None\<close> and \<^verbatim>\<open>''\<close> are false.\<close>

fun truthy_str :: "string option \<Rightarrow> bool" where
  "truthy_str None = False"
| "truthy_str (Some s) = (s \<noteq> [])"

text \<open>The truth value of an optional int: \<^verbatim>\<open>None\<close> and \<^verbatim>\<open>0\<close> are false.\<close>

fun truthy_int :: "int option \<Rightarrow> bool" where
  "truthy_int None = False"
| "truthy_int (Some n) = (n \<noteq> 0)"

text \<open>\<^verbatim>\<open>str.lower()\<close> on ASCII letters, and the substring test \<^verbatim>\<open>sub in s\<close>.\<close>

definition lower_char :: "char \<Rightarrow> char" where
  "lower_char c =
     (case map_of (zip ''ABCDEFGHIJKLMNOPQRSTUVWXYZ'' ''abcdefghijklmnopqrstuvwxyz'') c of
        Some d \<Rightarrow> d
      | None \<Rightarrow> c)"

definition lower :: "string \<Rightarrow> string" where
  "lower s = map lower_char s"

fun starts_with :: "string \<Rightarrow> string \<Rightarrow> bool" where
  "starts_with s [] = True"
| "starts_with [] (c # sub) = False"
| "starts_with (d # s) (c # sub) = (d = c \<and> starts_with s sub)"

fun contains :: "string \<Rightarrow> string \<Rightarrow> bool" where
  "contains [] sub = (sub = [])"
| "contains (d # s) sub = (starts_with (d # s) sub \<or> contains s sub)"

subsection \<open>The registry\<close>

record task =
  task_id :: string
  profile_id :: int
  task_type :: string
  total_items :: int
  completed_items :: int
  progress :: pyfloat
  current_step :: string
  message :: string
  start_time :: int
  last_update :: int
  status :: string
  estimated_time :: "pyfloat option"

record tracker =
  tasks :: "string \<rightharpoonup> task"
  lock :: bool

datatype 'a outcome = Returned 'a tracker | Raised error tracker | Blocked tracker

fun state_of :: "'a outcome \<Rightarrow> tracker" where
  "state_of (Returned v s) = s"
| "state_of (Raised e s) = s"
| "state_of (Blocked s) = s"

text \<open>\<^verbatim>\<open>__init__\<close>: no task, the lock free.\<close>

definition init :: tracker where
  "init = \<lparr>tasks = Map.empty, lock = False\<rparr>"

text \<open>
  \<^verbatim>\<open>with self.lock: body\<close>. Acquiring a held lock blocks. Leaving the block, by return or
  by exception, releases the lock; a body that blocks never leaves it.
\<close>

fun release :: "'a outcome \<Rightarrow> 'a outcome" where
  "release (Returned v s) = Returned v (s\<lparr>lock := False\<rparr>)"
| "release (Raised e s) = Raised e (s\<lparr>lock := False\<rparr>)"
| "release (Blocked s) = Blocked s"

definition with_lock :: "tracker \<Rightarrow> (tracker \<Rightarrow> 'a outcome) \<Rightarrow> 'a outcome" where
  "with_lock tr body = (if lock tr then Blocked tr else release (body (tr\<lparr>lock := True\<rparr>)))"

text \<open>\<^verbatim>\<open>self.tasks[tid] = t\<close>, also the effect of mutating the record found under \<open>tid\<close>.\<close>

definition store :: "tracker \<Rightarrow> string \<Rightarrow> task \<Rightarrow> tracker" where
  "store tr tid t = tr\<lparr>tasks := (tasks tr)(tid \<mapsto> t)\<rparr>"

subsection \<open>The methods\<close>

definition create_task ::
  "tracker \<Rightarrow> string \<Rightarrow> int \<Rightarrow> int \<Rightarrow> string \<Rightarrow> int \<Rightarrow> int \<Rightarrow> string outcome" where
  "create_task tr tid n pid ttype now_start now_update =
     with_lock tr (\<lambda>s. Returned tid (store s tid
       \<lparr>task_id = tid, profile_id = pid, task_type = ttype, total_items = n,
        completed_items = 0, progress = Finite 0, current_step = ''Initializing...'',
        message = ''Starting task...'', start_time = now_start, last_update = now_update,
        status = ''running'', estimated_time = None\<rparr>))"

definition extract_step_from_message :: "string \<Rightarrow> string" where
  "extract_step_from_message m =
     (if contains (lower m) ''upload'' then ''Uploading''
      else if contains (lower m) ''process'' then ''Processing''
      else if contains (lower m) ''transcri'' then ''Transcribing''
      else if contains (lower m) ''analyz'' then ''Analyzing''
      else if contains (lower m) ''generat'' then ''Generating''
      else ''Processing'')"

text \<open>
  Lines 54 to 57 of \<^verbatim>\<open>update_progress\<close>, reached with a finite \<open>p > 0\<close> only (on NaN and
  the infinities \<^verbatim>\<open>int()\<close> has raised before): \<open>elapsed\<close> in seconds, then
  \<^verbatim>\<open>max(0, elapsed / (p / 100.0) - elapsed)\<close>.
\<close>

definition remaining_time :: "int \<Rightarrow> int \<Rightarrow> rat \<Rightarrow> pyfloat" where
  "remaining_time now start r =
     (let elapsed = of_int (now - start) / 1000000;
          estimated_total = elapsed / (r / 100);
          remaining = estimated_total - elapsed
      in py_max (Finite 0) (Finite remaining))"

definition update_progress ::
  "tracker \<Rightarrow> string \<Rightarrow> pyfloat \<Rightarrow> string option \<Rightarrow> int \<Rightarrow> int \<Rightarrow> unit outcome" where
  "update_progress tr tid p msg now_update now_eta =
     with_lock tr (\<lambda>s.
       case tasks s tid of
         None \<Rightarrow> Returned () s
       | Some t0 \<Rightarrow>
           let t1 = t0\<lparr>progress := py_min (Finite 100) (py_max (Finite 0) p)\<rparr> in
           (case py_int (float_mul_int (div_100 p) (total_items t1)) of
              Inl e \<Rightarrow> Raised e (store s tid t1)
            | Inr c \<Rightarrow>
                let t2 = t1\<lparr>completed_items := c\<rparr>;
                    t3 = (if truthy_str msg
                          then t2\<lparr>message := the msg,
                                  current_step := extract_step_from_message (the msg)\<rparr>
                          else t2);
                    t4 = t3\<lparr>last_update := now_update\<rparr>;
                    t5 = (case p of
                            Finite r \<Rightarrow>
                              if 0 < r
                              then t4\<lparr>estimated_time :=
                                        Some (remaining_time now_eta (start_time t4) r)\<rparr>
                              else t4
                          | _ \<Rightarrow> t4)
                in Returned () (store s tid t5)))"

text \<open>
  \<^verbatim>\<open>increment_progress\<close> calls \<^verbatim>\<open>self.update_progress\<close> inside its own
  \<^verbatim>\<open>with self.lock\<close> block, so the inner call meets the lock held.
  \<^verbatim>\<open>completed / task['total_items']\<close> is a division of two ints and raises
  \<^verbatim>\<open>ZeroDivisionError\<close> on zero.
\<close>

definition increment_progress ::
  "tracker \<Rightarrow> string \<Rightarrow> string option \<Rightarrow> int \<Rightarrow> int \<Rightarrow> unit outcome" where
  "increment_progress tr tid msg now_update now_eta =
     with_lock tr (\<lambda>s.
       case tasks s tid of
         None \<Rightarrow> Returned () s
       | Some t \<Rightarrow>
           let completed = completed_items t + 1 in
           if total_items t = 0 then Raised ZeroDivisionError s
           else
             let p = Finite (of_int completed / of_int (total_items t) * 100)
             in update_progress s tid p msg now_update now_eta)"

definition complete_task :: "tracker \<Rightarrow> string \<Rightarrow> string \<Rightarrow> int \<Rightarrow> unit outcome" where
  "complete_task tr tid msg now_update =
     with_lock tr (\<lambda>s.
       case tasks s tid of
         None \<Rightarrow> Returned () s
       | Some t \<Rightarrow>
           Returned () (store s tid
             (t\<lparr>progress := Finite 100, completed_items := total_items t, message := msg,
                status := ''completed'', last_update := now_update\<rparr>)))"

definition fail_task :: "tracker \<Rightarrow> string \<Rightarrow> string \<Rightarrow> int \<Rightarrow> unit outcome" where
  "fail_task tr tid error_message now_update =
     with_lock tr (\<lambda>s.
       case tasks s tid of
         None \<Rightarrow> Returned () s
       | Some t \<Rightarrow>
           Returned () (store s tid
             (t\<lparr>message := ''Failed: '' @ error_message, status := ''failed'',
                last_update := now_update\<rparr>)))"

definition get_progress :: "tracker \<Rightarrow> string \<Rightarrow> task option outcome" where
  "get_progress tr tid = with_lock tr (\<lambda>s. Returned (tasks s tid) s)"

definition get_all_tasks :: "tracker \<Rightarrow> int option \<Rightarrow> (string \<rightharpoonup> task) outcome" where
  "get_all_tasks tr pid =
     with_lock tr (\<lambda>s.
       if truthy_int pid
       then Returned (\<lambda>tid. case tasks s tid of
                               None \<Rightarrow> None
                             | Some t \<Rightarrow> if profile_id t = the pid then Some t else None) s
       else Returned (tasks s) s)"

text \<open>
  \<^verbatim>\<open>cleanup_old_tasks\<close>: the first loop collects the ids to remove, the second deletes
  them. \<open>age\<close> is in minutes.
\<close>

definition age :: "int \<Rightarrow> task \<Rightarrow> rat" where
  "age current_time t = of_int (current_time - last_update t) / 1000000 / 60"

definition tasks_to_remove :: "tracker \<Rightarrow> int \<Rightarrow> int \<Rightarrow> string set" where
  "tasks_to_remove s max_age_minutes current_time =
     {tid. case tasks s tid of
             None \<Rightarrow> False
           | Some t \<Rightarrow> status t \<in> set [''completed'', ''failed''] \<and>
                       of_int max_age_minutes < age current_time t}"

definition cleanup_old_tasks :: "tracker \<Rightarrow> int \<Rightarrow> int \<Rightarrow> unit outcome" where
  "cleanup_old_tasks tr max_age_minutes current_time =
     with_lock tr (\<lambda>s.
       Returned () (s\<lparr>tasks := tasks s |` (- tasks_to_remove s max_age_minutes current_time)\<rparr>))"

subsection \<open>Example registries\<close>

text \<open>
  The registry after \<^verbatim>\<open>create_task("t1", 4, 7, "file_upload")\<close> on a fresh tracker, the
  clock reading 0.
\<close>

definition created_example :: tracker where
  "created_example = state_of (create_task init ''t1'' 4 7 ''file_upload'' 0 0)"

text \<open>
  Two tasks: \<^verbatim>\<open>t1\<close> as above, completed at clock reading 5, and \<^verbatim>\<open>t2\<close>, created at
  clock reading 1 and still running.
\<close>

definition sweep_example :: tracker where
  "sweep_example =
     state_of (complete_task
       (state_of (create_task created_example ''t2'' 1 7 ''transcription'' 1 1))
       ''t1'' ''Task completed successfully'' 5)"

text \<open>A task created with no items, as \<^verbatim>\<open>create_task\<close> accepts it.\<close>

definition zero_items_example :: tracker where
  "zero_items_example = state_of (create_task init ''t0'' 0 7 ''file_upload'' 0 0)"

section \<open>Properties\<close>

lemmas example_defs = created_example_def sweep_example_def zero_items_example_def init_def
  create_task_def complete_task_def with_lock_def store_def

subsection \<open>The lock\<close>

lemma with_lock_free:
  "\<not> lock tr \<Longrightarrow> with_lock tr body = release (body (tr\<lparr>lock := True\<rparr>))"
  by (simp add: with_lock_def)

lemma with_lock_held: "lock tr \<Longrightarrow> with_lock tr body = Blocked tr"
  by (simp add: with_lock_def)

lemma examples_unlocked:
  "\<not> lock init" "\<not> lock created_example" "\<not> lock sweep_example" "\<not> lock zero_items_example"
  by (simp_all add: example_defs)

subsection \<open>What \<^verbatim>\<open>update_progress\<close> stores\<close>

text \<open>
  On a known task and a finite \<open>p\<close>, the stored progress is \<open>p\<close> clamped, and the stored
  \<open>completed_items\<close> is computed from \<open>p\<close> itself (line 44 reads the parameter, not the
  clamped value stored by line 43).
\<close>

lemma update_progress_finite:
  assumes "\<not> lock tr" and "tasks tr tid = Some t"
  shows "\<exists>s t'. update_progress tr tid (Finite r) msg now_update now_eta = Returned () s \<and>
           tasks s tid = Some t' \<and>
           progress t' = Finite (min 100 (max 0 r)) \<and>
           completed_items t' = py_trunc (r / 100 * of_int (total_items t))"
  using assms
  by (simp add: update_progress_def with_lock_def store_def py_min_def py_max_def Let_def)

text \<open>
  C1. After \<^verbatim>\<open>update_progress(task_id, p, message)\<close> on a known task the stored progress
  is \<open>p\<close> clamped into [0, 100] and the stored \<open>completed_items\<close> is the floor of
  stored progress / 100 * \<open>total_items\<close>. The code computes \<open>completed_items\<close> from the
  unclamped \<open>p\<close>: for \<open>p = 150\<close> on a task of 4 items it stores progress 100 and
  \<open>completed_items\<close> 6, where the claim asks for 4.
\<close>

theorem update_progress_above_100:
  "map_option total_items (tasks created_example ''t1'') = Some 4 \<and>
   map_option progress
     (tasks (state_of (update_progress created_example ''t1'' (Finite 150) None 1 1)) ''t1'') =
     Some (Finite 100) \<and>
   map_option completed_items
     (tasks (state_of (update_progress created_example ''t1'' (Finite 150) None 1 1)) ''t1'') =
     Some 6"
  by (simp add: example_defs update_progress_def py_min_def py_max_def py_trunc_def)

subsection \<open>The scenario of the specification\<close>

text \<open>
  C2. From the empty registry, \<^verbatim>\<open>create_task("t1", 4, 7, "file_upload")\<close>, three calls of
  \<^verbatim>\<open>increment_progress("t1")\<close> and \<^verbatim>\<open>complete_task("t1")\<close> give progress 0 after the
  creation, progress 75 and 3 completed items after the increments, progress 100 and the
  status completed at the end. On the code the creation gives the stated record, and the
  first \<^verbatim>\<open>increment_progress\<close> never returns: it calls \<^verbatim>\<open>update_progress\<close> with the lock
  held, and the record is still at progress 0.
\<close>

theorem scenario_first_increment_blocks:
  "create_task init ''t1'' 4 7 ''file_upload'' 0 0 = Returned ''t1'' created_example \<and>
   map_option progress (tasks created_example ''t1'') = Some (Finite 0) \<and>
   map_option completed_items (tasks created_example ''t1'') = Some 0 \<and>
   map_option status (tasks created_example ''t1'') = Some ''running'' \<and>
   increment_progress created_example ''t1'' None 1 1 =
     Blocked (created_example\<lparr>lock := True\<rparr>) \<and>
   map_option progress
     (tasks (state_of (increment_progress created_example ''t1'' None 1 1)) ''t1'') =
     Some (Finite 0)"
  by (simp add: example_defs increment_progress_def update_progress_def)

subsection \<open>\<^verbatim>\<open>increment_progress\<close> and the lock\<close>

text \<open>
  C3, as stated: on every known task \<^verbatim>\<open>increment_progress\<close> calls \<^verbatim>\<open>update_progress\<close>
  with the lock held and never returns. On a task of zero items the division of line 67
  raises \<^verbatim>\<open>ZeroDivisionError\<close> before \<^verbatim>\<open>update_progress\<close> is called: the call ends,
  with the lock released.
\<close>

theorem increment_progress_zero_items_counterexample:
  "map_option total_items (tasks zero_items_example ''t0'') = Some 0 \<and>
   increment_progress zero_items_example ''t0'' None 1 1 =
     Raised ZeroDivisionError zero_items_example"
  by (simp add: example_defs increment_progress_def)

text \<open>
  C3, amended: on every known task whose \<open>total_items\<close> is not zero, called with the
  lock free, \<^verbatim>\<open>increment_progress\<close> takes the lock and calls \<^verbatim>\<open>update_progress\<close>, which
  blocks on the same lock whatever the progress passed; so \<^verbatim>\<open>increment_progress\<close> never
  returns, the lock stays held and the records are unchanged.
\<close>

theorem increment_progress_blocks:
  assumes "\<not> lock tr" and "tasks tr tid = Some t" and "total_items t \<noteq> 0"
  shows "update_progress (tr\<lparr>lock := True\<rparr>) tid p msg now_update now_eta =
           Blocked (tr\<lparr>lock := True\<rparr>) \<and>
         increment_progress tr tid msg now_update now_eta = Blocked (tr\<lparr>lock := True\<rparr>) \<and>
         tasks (state_of (increment_progress tr tid msg now_update now_eta)) = tasks tr"
  using assms by (simp add: update_progress_def increment_progress_def with_lock_def)

theorem increment_progress_blocks_witness:
  "\<not> lock created_example \<and>
   map_option total_items (tasks created_example ''t1'') = Some 4 \<and>
   update_progress (created_example\<lparr>lock := True\<rparr>) ''t1'' (Finite 25) None 1 1 =
     Blocked (created_example\<lparr>lock := True\<rparr>) \<and>
   increment_progress created_example ''t1'' None 1 1 =
     Blocked (created_example\<lparr>lock := True\<rparr>) \<and>
   tasks (state_of (increment_progress created_example ''t1'' None 1 1)) =
     tasks created_example"
proof -
  have free: "\<not> lock created_example"
    by (simp add: example_defs)
  have known: "tasks created_example ''t1'' = Some (the (tasks created_example ''t1''))"
    by (simp add: example_defs)
  have items: "total_items (the (tasks created_example ''t1'')) \<noteq> 0"
    by (simp add: example_defs)
  have four: "map_option total_items (tasks created_example ''t1'') = Some 4"
    by (simp add: example_defs)
  from free four increment_progress_blocks [OF free known items, of "Finite 25" None 1 1]
  show ?thesis by simp
qed

subsection \<open>The range of \<open>completed_items\<close>\<close>

text \<open>
  C4. In every registry reached from the empty one by the mutating methods, every task
  created with a positive number of items, each record has
  \<open>0 \<le> completed_items \<le> total_items\<close> and \<open>0 \<le> progress \<le> 100\<close>. The code leaves the
  range after one \<^verbatim>\<open>update_progress\<close>: on a task of 4 items, progress 200 stores 8
  completed items and progress -50 stores -2.
\<close>

theorem completed_items_out_of_range:
  "map_option total_items
     (tasks (state_of (update_progress created_example ''t1'' (Finite 200) None 1 1)) ''t1'') =
     Some 4 \<and>
   map_option completed_items
     (tasks (state_of (update_progress created_example ''t1'' (Finite 200) None 1 1)) ''t1'') =
     Some 8 \<and>
   map_option completed_items
     (tasks (state_of (update_progress created_example ''t1'' (Finite (- 50)) None 1 1)) ''t1'') =
     Some (- 2)"
  by (simp add: example_defs update_progress_def py_min_def py_max_def py_trunc_def)

subsection \<open>Terminal calls\<close>

text \<open>
  C5. For every known task, whatever its progress before, after
  \<^verbatim>\<open>complete_task(task_id, message)\<close> the stored record has the status completed,
  progress 100 and \<open>completed_items\<close> equal to \<open>total_items\<close> (which the call leaves as
  it was).
\<close>

theorem complete_task_known:
  assumes "\<not> lock tr" and "tasks tr tid = Some t"
  shows "\<exists>s t'. complete_task tr tid msg now_update = Returned () s \<and> tasks s tid = Some t' \<and>
           status t' = ''completed'' \<and> progress t' = Finite 100 \<and>
           completed_items t' = total_items t' \<and> total_items t' = total_items t"
  using assms by (simp add: complete_task_def with_lock_def store_def)

theorem complete_task_known_witness:
  "\<not> lock created_example \<and>
   map_option progress (tasks created_example ''t1'') = Some (Finite 0) \<and>
   (\<exists>s t'. complete_task created_example ''t1'' ''Task completed successfully'' 5 =
             Returned () s \<and>
           tasks s ''t1'' = Some t' \<and> status t' = ''completed'' \<and> progress t' = Finite 100 \<and>
           completed_items t' = total_items t' \<and> total_items t' = 4)"
proof -
  have free: "\<not> lock created_example"
    by (simp add: example_defs)
  have known: "tasks created_example ''t1'' = Some (the (tasks created_example ''t1''))"
    by (simp add: example_defs)
  have before: "map_option progress (tasks created_example ''t1'') = Some (Finite 0)"
    "total_items (the (tasks created_example ''t1'')) = 4"
    by (simp_all add: example_defs)
  from free before
    complete_task_known [OF free known, of "''Task completed successfully''" 5]
  show ?thesis by simp
qed

text \<open>
  C6. For every known task, after \<^verbatim>\<open>fail_task(task_id, error_message)\<close> the stored record
  has the status failed and the message \<^verbatim>\<open>"Failed: "\<close> followed by the error message;
  its progress, \<open>completed_items\<close>, \<open>total_items\<close>, \<open>start_time\<close>, \<open>profile_id\<close> and
  \<open>task_type\<close> are as before the call.
\<close>

theorem fail_task_known:
  assumes "\<not> lock tr" and "tasks tr tid = Some t"
  shows "\<exists>s t'. fail_task tr tid error_message now_update = Returned () s \<and>
           tasks s tid = Some t' \<and>
           status t' = ''failed'' \<and> message t' = ''Failed: '' @ error_message \<and>
           progress t' = progress t \<and> completed_items t' = completed_items t \<and>
           total_items t' = total_items t \<and> start_time t' = start_time t \<and>
           profile_id t' = profile_id t \<and> task_type t' = task_type t"
  using assms by (simp add: fail_task_def with_lock_def store_def)

theorem fail_task_known_witness:
  "\<not> lock created_example \<and>
   (\<exists>s t'. fail_task created_example ''t1'' ''disk full'' 5 = Returned () s \<and>
           tasks s ''t1'' = Some t' \<and>
           status t' = ''failed'' \<and> message t' = ''Failed: disk full'' \<and>
           progress t' = Finite 0 \<and> completed_items t' = 0 \<and> total_items t' = 4 \<and>
           start_time t' = 0 \<and> profile_id t' = 7 \<and> task_type t' = ''file_upload'')"
proof -
  have free: "\<not> lock created_example"
    by (simp add: example_defs)
  have known: "tasks created_example ''t1'' = Some (the (tasks created_example ''t1''))"
    by (simp add: example_defs)
  have before: "progress (the (tasks created_example ''t1'')) = Finite 0"
    "completed_items (the (tasks created_example ''t1'')) = 0"
    "total_items (the (tasks created_example ''t1'')) = 4"
    "start_time (the (tasks created_example ''t1'')) = 0"
    "profile_id (the (tasks created_example ''t1'')) = 7"
    "task_type (the (tasks created_example ''t1'')) = ''file_upload''"
    by (simp_all add: example_defs)
  from free before fail_task_known [OF free known, of "''disk full''" 5]
  show ?thesis by simp
qed

subsection \<open>Unknown task ids\<close>

text \<open>
  C7. For a task id that is not in the registry, \<^verbatim>\<open>update_progress\<close>,
  \<^verbatim>\<open>increment_progress\<close>, \<^verbatim>\<open>complete_task\<close> and \<^verbatim>\<open>fail_task\<close> return without raising and
  leave the whole registry as it was, and \<^verbatim>\<open>get_progress\<close> returns \<^verbatim>\<open>None\<close> without
  raising.
\<close>

theorem unknown_task_id_ignored:
  assumes "\<not> lock tr" and "tasks tr tid = None"
  shows "update_progress tr tid p msg now_update now_eta = Returned () tr \<and>
         increment_progress tr tid msg now_update now_eta = Returned () tr \<and>
         complete_task tr tid done_msg now_update = Returned () tr \<and>
         fail_task tr tid error_message now_update = Returned () tr \<and>
         get_progress tr tid = Returned None tr"
  using assms
  by (simp add: update_progress_def increment_progress_def complete_task_def fail_task_def
      get_progress_def with_lock_def)

theorem unknown_task_id_ignored_witness:
  "\<not> lock created_example \<and> tasks created_example ''unknown'' = None \<and>
   update_progress created_example ''unknown'' (Finite 50) (Some ''Uploading'') 1 1 =
     Returned () created_example \<and>
   increment_progress created_example ''unknown'' (Some ''Uploading'') 1 1 =
     Returned () created_example \<and>
   complete_task created_example ''unknown'' ''Task completed successfully'' 1 =
     Returned () created_example \<and>
   fail_task created_example ''unknown'' ''disk full'' 1 = Returned () created_example \<and>
   get_progress created_example ''unknown'' = Returned None created_example"
proof -
  have free: "\<not> lock created_example"
    by (simp add: example_defs)
  have unknown: "tasks created_example ''unknown'' = None"
    by (simp add: example_defs)
  from free unknown
    unknown_task_id_ignored [OF free unknown, of "Finite 50" "Some ''Uploading''" 1 1
      "''Task completed successfully''" "''disk full''"]
  show ?thesis by simp
qed

subsection \<open>The sweep\<close>

text \<open>
  C8, as stated: \<^verbatim>\<open>cleanup_old_tasks(max_age_minutes=0)\<close> removes every completed or
  failed record, whatever its \<open>last_update\<close>. The test of line 122 is \<^verbatim>\<open>age > 0\<close>: a
  record completed at the clock reading at which the sweep runs has age 0 and stays.
\<close>

theorem cleanup_zero_age_counterexample:
  "map_option status (tasks sweep_example ''t1'') = Some ''completed'' \<and>
   map_option last_update (tasks sweep_example ''t1'') = Some 5 \<and>
   map_option status (tasks (state_of (cleanup_old_tasks sweep_example 0 5)) ''t1'') =
     Some ''completed''"
  by (simp add: example_defs cleanup_old_tasks_def tasks_to_remove_def age_def restrict_map_def)

text \<open>
  C8, amended: \<^verbatim>\<open>cleanup_old_tasks(max_age_minutes=0)\<close>, run at the clock reading
  \<open>current_time\<close>, removes every completed or failed record whose \<open>last_update\<close> is
  before \<open>current_time\<close>, keeps unchanged every completed or failed record whose
  \<open>last_update\<close> is not before \<open>current_time\<close>, and keeps unchanged every running
  record, whatever its age.
\<close>

theorem cleanup_zero_age:
  assumes "\<not> lock tr"
  shows "\<exists>s. cleanup_old_tasks tr 0 current_time = Returned () s \<and>
     (\<forall>tid t. tasks tr tid = Some t \<and> status t \<in> {''completed'', ''failed''} \<and>
        last_update t < current_time \<longrightarrow> tasks s tid = None) \<and>
     (\<forall>tid t. tasks tr tid = Some t \<and> status t \<in> {''completed'', ''failed''} \<and>
        current_time \<le> last_update t \<longrightarrow> tasks s tid = Some t) \<and>
     (\<forall>tid t. tasks tr tid = Some t \<and> status t = ''running'' \<longrightarrow> tasks s tid = Some t)"
  using assms
  by (auto simp add: cleanup_old_tasks_def with_lock_def tasks_to_remove_def age_def
      restrict_map_def zero_less_divide_iff)

theorem cleanup_zero_age_witness:
  "\<not> lock sweep_example \<and>
   (\<exists>s. cleanup_old_tasks sweep_example 0 9 = Returned () s \<and>
      map_option status (tasks sweep_example ''t1'') = Some ''completed'' \<and>
      tasks s ''t1'' = None \<and>
      map_option status (tasks sweep_example ''t2'') = Some ''running'' \<and>
      tasks s ''t2'' = tasks sweep_example ''t2'')"
proof -
  have free: "\<not> lock sweep_example"
    by (simp add: example_defs)
  from cleanup_zero_age [OF free, of 9] obtain s where
    ret: "cleanup_old_tasks sweep_example 0 9 = Returned () s" and
    old: "\<And>tid t. tasks sweep_example tid = Some t \<and>
        status t \<in> {''completed'', ''failed''} \<and> last_update t < 9 \<Longrightarrow> tasks s tid = None" and
    run: "\<And>tid t. tasks sweep_example tid = Some t \<and> status t = ''running'' \<Longrightarrow>
        tasks s tid = Some t"
    by blast
  have t1: "tasks s ''t1'' = None"
    by (rule old [of "''t1''" "the (tasks sweep_example ''t1'')"]) (simp add: example_defs)
  have t2: "tasks s ''t2'' = tasks sweep_example ''t2''"
    using run [of "''t2''" "the (tasks sweep_example ''t2'')"] by (simp add: example_defs)
  have st: "map_option status (tasks sweep_example ''t1'') = Some ''completed''"
    "map_option status (tasks sweep_example ''t2'') = Some ''running''"
    by (simp_all add: example_defs)
  from free ret t1 t2 st show ?thesis by simp
qed

subsection \<open>Queries\<close>

text \<open>
  With no profile id, and with a profile id other than 0, \<^verbatim>\<open>get_all_tasks\<close> returns all
  records, respectively the records of that profile.
\<close>

lemma get_all_tasks_none:
  "\<not> lock tr \<Longrightarrow> get_all_tasks tr None = Returned (tasks tr) tr"
  by (simp add: get_all_tasks_def with_lock_def)

lemma get_all_tasks_nonzero:
  assumes "\<not> lock tr" and "pid \<noteq> 0"
  shows "\<exists>m. get_all_tasks tr (Some pid) = Returned m tr \<and>
           (\<forall>tid t. m tid = Some t \<longleftrightarrow> tasks tr tid = Some t \<and> profile_id t = pid)"
  using assms by (auto simp add: get_all_tasks_def with_lock_def split: option.splits)

text \<open>
  C9. For every integer profile id, 0 included, \<^verbatim>\<open>get_all_tasks(profile_id)\<close> returns
  exactly the records of that profile. The test of line 106 is \<^verbatim>\<open>if profile_id:\<close>, which
  takes 0 for no profile id at all: \<^verbatim>\<open>get_all_tasks(0)\<close> returns every record, here the
  record of profile 7.
\<close>

theorem get_all_tasks_profile_zero:
  "map_option profile_id (tasks created_example ''t1'') = Some 7 \<and>
   get_all_tasks created_example (Some 0) = Returned (tasks created_example) created_example"
  by (simp add: example_defs get_all_tasks_def)

text \<open>
  C10. For every task id, profile id, task type and \<open>total_items > 0\<close>, right after
  \<^verbatim>\<open>create_task\<close> the registry holds a record under the task id with the status running,
  progress 0, no completed item and the step \<^verbatim>\<open>"Initializing..."\<close>, and
  \<^verbatim>\<open>get_progress\<close> returns that record.
\<close>

theorem create_task_then_get_progress:
  assumes "\<not> lock tr" and "0 < n"
  shows "\<exists>s t. create_task tr tid n pid ttype now_start now_update = Returned tid s \<and>
           tasks s tid = Some t \<and> get_progress s tid = Returned (Some t) s \<and>
           status t = ''running'' \<and> progress t = Finite 0 \<and> completed_items t = 0 \<and>
           current_step t = ''Initializing...'' \<and> task_id t = tid \<and> total_items t = n \<and>
           profile_id t = pid \<and> task_type t = ttype"
  using assms by (simp add: create_task_def get_progress_def with_lock_def store_def)

theorem create_task_then_get_progress_witness:
  "\<not> lock init \<and> (0::int) < 4 \<and>
   (\<exists>s t. create_task init ''t1'' 4 7 ''file_upload'' 0 0 = Returned ''t1'' s \<and>
           tasks s ''t1'' = Some t \<and> get_progress s ''t1'' = Returned (Some t) s \<and>
           status t = ''running'' \<and> progress t = Finite 0 \<and> completed_items t = 0 \<and>
           current_step t = ''Initializing...'' \<and> task_id t = ''t1'' \<and> total_items t = 4 \<and>
           profile_id t = 7 \<and> task_type t = ''file_upload'')"
proof -
  have free: "\<not> lock init"
    by (simp add: init_def)
  have pos: "(0::int) < 4"
    by simp
  from free pos
    create_task_then_get_progress [OF free pos, of "''t1''" 7 "''file_upload''" 0 0]
  show ?thesis by simp
qed

end
